theory Spec2Isabelle
  imports Main "HOL-Library.Sublist"
begin

section \<open>The launcher script \<open>run_file_manager.pyw\<close>\<close>

text \<open>
  The launcher is three statements:
  \<^verbatim>\<open>
  script_dir = os.path.dirname(os.path.abspath(__file__))
  file_manager_path = os.path.join(script_dir, 'file_manager.py')
  subprocess.run([sys.executable, file_manager_path])
  \<close>
  Everything it reads from its surroundings is made explicit: the values of one
  invocation (\<open>__file__\<close>, the working directory that \<open>os.path.abspath\<close> consults,
  \<open>sys.executable\<close> and the arguments the launcher was started with), the three
  \<open>os.path\<close> functions it calls, and what \<open>subprocess.run\<close> does with a command.
\<close>

subsection \<open>What one invocation provides\<close>

record invocation =
  script_file :: string   \<comment> \<open>\<open>__file__\<close> of the launcher\<close>
  cwd :: string           \<comment> \<open>\<open>os.getcwd()\<close>, read by \<open>os.path.abspath\<close>\<close>
  executable :: string    \<comment> \<open>\<open>sys.executable\<close>\<close>
  args :: "string list"   \<comment> \<open>\<open>sys.argv[1:]\<close>, the launcher's own arguments\<close>

text \<open>
  The \<open>os.path\<close> module is the platform's (\<open>ntpath\<close> or \<open>posixpath\<close>); the launcher
  is modelled over any implementation of the three functions it calls.
  \<open>os_abspath\<close> takes the working directory as its first argument.
\<close>

record os_path =
  os_abspath :: "string \<Rightarrow> string \<Rightarrow> string"
  os_dirname :: "string \<Rightarrow> string"
  os_join :: "string \<Rightarrow> string \<Rightarrow> string"

text \<open>
  \<open>subprocess.run(cmd)\<close> without \<open>check=True\<close> either raises (the child could not
  be started: \<open>OSError\<close> and its subclasses) or returns a \<open>CompletedProcess\<close> carrying
  the child's return code, whatever that code is.
\<close>

datatype run_result = Raised | Completed int

subsection \<open>The script\<close>

definition script_dir :: "os_path \<Rightarrow> invocation \<Rightarrow> string" where
  "script_dir P call = os_dirname P (os_abspath P (cwd call) (script_file call))"

definition file_manager_path :: "os_path \<Rightarrow> invocation \<Rightarrow> string" where
  "file_manager_path P call = os_join P (script_dir P call) ''file_manager.py''"

definition child_command :: "os_path \<Rightarrow> invocation \<Rightarrow> string list" where
  "child_command P call = [executable call, file_manager_path P call]"

text \<open>
  The script neither inspects the value \<open>subprocess.run\<close> returns nor calls
  \<open>sys.exit\<close>: when the call returns, the script ends and the interpreter exits with
  status 0; when the call raises, the exception is unhandled and the interpreter exits
  with status 1.
\<close>

definition launcher_exit_code ::
  "os_path \<Rightarrow> (string list \<Rightarrow> run_result) \<Rightarrow> invocation \<Rightarrow> int" where
  "launcher_exit_code P subprocess_run call =
     (case subprocess_run (child_command P call) of
        Raised \<Rightarrow> 1
      | Completed returncode \<Rightarrow> 0)"

subsection \<open>\<open>posixpath\<close>, an implementation of \<open>os.path\<close>\<close>

text \<open>
  The POSIX flavour of the three functions, after the standard library's
  \<open>posixpath.py\<close>; it instantiates the \<open>os_path\<close> parameter on concrete paths.
\<close>

definition posix_isabs :: "string \<Rightarrow> bool" where
  "posix_isabs s = (case s of [] \<Rightarrow> False | c # _ \<Rightarrow> c = CHR ''/'')"

text \<open>
  \<^verbatim>\<open>
  if b.startswith(sep): path = b
  elif not path or path.endswith(sep): path += b
  else: path += sep + b
  \<close>
\<close>

definition posix_join :: "string \<Rightarrow> string \<Rightarrow> string" where
  "posix_join a b =
     (if posix_isabs b then b
      else if a = [] \<or> last a = CHR ''/'' then a @ b
      else a @ ''/'' @ b)"

text \<open>
  \<^verbatim>\<open>
  i = p.rfind(sep) + 1
  head = p[:i]
  if head and head != sep*len(head): head = head.rstrip(sep)
  return head
  \<close>
\<close>

definition posix_dirname :: "string \<Rightarrow> string" where
  "posix_dirname p =
     (let head = rev (dropWhile (\<lambda>c. c \<noteq> CHR ''/'') (rev p))
      in if head \<noteq> [] \<and> filter (\<lambda>c. c \<noteq> CHR ''/'') head \<noteq> []
         then rev (dropWhile (\<lambda>c. c = CHR ''/'') (rev head))
         else head)"

text \<open>\<open>s.split(sep)\<close> for a one-character separator.\<close>

fun split_on :: "char \<Rightarrow> string \<Rightarrow> string list" where
  "split_on sep [] = [[]]"
| "split_on sep (c # cs) =
     (if c = sep then [] # split_on sep cs
      else (case split_on sep cs of [] \<Rightarrow> [[c]] | w # ws \<Rightarrow> (c # w) # ws))"

fun join_sep :: "string list \<Rightarrow> string" where
  "join_sep [] = []"
| "join_sep [w] = w"
| "join_sep (w # ws) = w @ ''/'' @ join_sep ws"

text \<open>
  The component loop of \<open>normpath\<close>; \<open>new_comps\<close> is kept in order, \<open>rooted\<close> is
  \<open>initial_slashes \<noteq> 0\<close>.
  \<^verbatim>\<open>
  for comp in comps:
      if comp in ('', '.'): continue
      if (comp != '..' or (not initial_slashes and not new_comps) or
           (new_comps and new_comps[-1] == '..')):
          new_comps.append(comp)
      elif new_comps:
          new_comps.pop()
  \<close>
\<close>

fun norm_comps :: "bool \<Rightarrow> string list \<Rightarrow> string list \<Rightarrow> string list" where
  "norm_comps rooted new_comps [] = new_comps"
| "norm_comps rooted new_comps (part # parts) =
     (if part = [] \<or> part = ''.'' then norm_comps rooted new_comps parts
      else if part \<noteq> ''..'' \<or> (\<not> rooted \<and> new_comps = [])
              \<or> (new_comps \<noteq> [] \<and> last new_comps = ''..'')
        then norm_comps rooted (new_comps @ [part]) parts
      else if new_comps \<noteq> [] then norm_comps rooted (butlast new_comps) parts
      else norm_comps rooted new_comps parts)"

definition initial_slashes :: "string \<Rightarrow> nat" where
  "initial_slashes path =
     (if \<not> posix_isabs path then 0
      else if take 2 path = ''//'' \<and> take 3 path \<noteq> ''///'' then 2
      else 1)"

definition posix_normpath :: "string \<Rightarrow> string" where
  "posix_normpath path =
     (if path = [] then ''.''
      else let n = initial_slashes path;
               p = replicate n (CHR ''/'') @ join_sep (norm_comps (n \<noteq> 0) [] (split_on (CHR ''/'') path))
           in if p = [] then ''.'' else p)"

definition posix_abspath :: "string \<Rightarrow> string \<Rightarrow> string" where
  "posix_abspath cwd_now path =
     (if \<not> posix_isabs path then posix_normpath (posix_join cwd_now path)
      else posix_normpath path)"

definition posixpath :: os_path where
  "posixpath = \<lparr>os_abspath = posix_abspath, os_dirname = posix_dirname, os_join = posix_join\<rparr>"

subsection \<open>Concrete invocations and children\<close>

definition installed_launch :: invocation where
  "installed_launch =
     \<lparr>script_file = ''/opt/tools/fm/run_file_manager.pyw'', cwd = ''/home/user'',
      executable = ''/usr/bin/python3'', args = []\<rparr>"

definition relative_launch :: invocation where
  "relative_launch =
     \<lparr>script_file = ''../fm/./run_file_manager.pyw'', cwd = ''/opt/tools/bin'',
      executable = ''/usr/bin/python3'', args = [''/home/user/Documents'']\<rparr>"

text \<open>A child that starts and ends with the given return code, whatever the command.\<close>

definition child_exits :: "int \<Rightarrow> string list \<Rightarrow> run_result" where
  "child_exits returncode cmd = Completed returncode"

text \<open>A child that cannot be started: \<open>subprocess.run\<close> raises.\<close>

definition child_cannot_start :: "string list \<Rightarrow> run_result" where
  "child_cannot_start cmd = Raised"

section \<open>The file manager's filter and rename logic\<close>

text \<open>
  The launcher runs \<open>file_manager.py\<close>, whose text is not among the sources. Its Filter
  Engine and Rename Transformer are modelled from the design specification, sections 3,
  4.2 and 4.3.
\<close>

subsection \<open>Data model\<close>

text \<open>Modelled from the spec: the FileEntry of section 3 (\<open>file_manager.py\<close> is missing);
  the field \<open>size\<close> is written \<open>size_bytes\<close>.\<close>

record FileEntry =
  name :: string
  full_path :: string
  size_bytes :: nat
  modified_time :: int
  is_directory :: bool

text \<open>Modelled from the spec: the FilterSpec of section 3 (\<open>file_manager.py\<close> is missing).\<close>

record FilterSpec =
  pattern :: string
  use_regex :: bool
  case_sensitive :: bool
  include_subdirs :: bool

text \<open>Modelled from the spec: the RenameSpec of section 3 (\<open>file_manager.py\<close> is missing);
  its fields \<open>find\<close>, \<open>replace\<close> and \<open>use_regex\<close> are written \<open>find_text\<close>,
  \<open>replace_text\<close> and \<open>regex_mode\<close>.\<close>

record RenameSpec =
  find_text :: string
  replace_text :: string
  regex_mode :: bool

text \<open>Modelled from the spec: the error taxonomy of section 7 (\<open>file_manager.py\<close> is
  missing).\<close>

datatype error =
  PathNotFoundError | PermissionError | InvalidPatternError
  | CollisionError | DestinationExistsError | DiskFullError

text \<open>
  Modelled from the spec: the regular-expression engine that sections 4.2 and 4.3 rely on
  ("compiled as a regular expression", "search anywhere in the string", "regex
  substitution with replace-all semantics"). The spec fixes no pattern syntax, so the
  engine is a parameter: compilation may fail, a compiled pattern can be searched for in a
  string, and every non-overlapping match in a string can be substituted by a replacement.
\<close>

record 'r regex_lib =
  re_compile :: "string \<Rightarrow> 'r option"
  re_search :: "'r \<Rightarrow> string \<Rightarrow> bool"
  re_sub :: "'r \<Rightarrow> string \<Rightarrow> string \<Rightarrow> string"

subsection \<open>Filter Engine (section 4.2)\<close>

text \<open>Modelled from the spec: case folding of the "case-folded" comparison of section 4.2
  (\<open>file_manager.py\<close> is missing), on the ASCII letters.\<close>

definition to_lower :: "char \<Rightarrow> char" where
  "to_lower c =
     (case map_of (zip ''ABCDEFGHIJKLMNOPQRSTUVWXYZ'' ''abcdefghijklmnopqrstuvwxyz'') c of
        None \<Rightarrow> c
      | Some l \<Rightarrow> l)"

text \<open>Modelled from the spec: the comparison key of a name or pattern, "case-folded unless
  \<open>case_sensitive\<close>" (section 4.2; \<open>file_manager.py\<close> is missing).\<close>

definition fold_case :: "FilterSpec \<Rightarrow> string \<Rightarrow> string" where
  "fold_case spec s = (if case_sensitive spec then s else map to_lower s)"

text \<open>Modelled from the spec: the substring test of section 4.2 (\<open>file_manager.py\<close> is
  missing), as a scan of the text for a position where the wanted string starts.\<close>

fun contains :: "string \<Rightarrow> string \<Rightarrow> bool" where
  "contains [] wanted = (wanted = [])"
| "contains (c # cs) wanted = (prefix wanted (c # cs) \<or> contains cs wanted)"

text \<open>
  Modelled from the spec: the Filter Engine of section 4.2 (\<open>file_manager.py\<close> is
  missing). "Given the entry sequence and a FilterSpec, returns the subset whose name
  matches. If \<open>use_regex\<close> is false, match is substring containment (case-folded unless
  \<open>case_sensitive\<close>); if true, pattern is compiled as a regular expression and matched
  via search. Fails with InvalidPatternError if the regex fails to compile."
\<close>

definition filter_engine ::
  "'r regex_lib \<Rightarrow> FileEntry list \<Rightarrow> FilterSpec \<Rightarrow> error + FileEntry list" where
  "filter_engine lib entries spec =
     (if use_regex spec then
        (case re_compile lib (pattern spec) of
           None \<Rightarrow> Inl InvalidPatternError
         | Some r \<Rightarrow> Inr (filter (\<lambda>e. re_search lib r (name e)) entries))
      else
        Inr (filter (\<lambda>e. contains (fold_case spec (name e)) (fold_case spec (pattern spec)))
               entries))"

subsection \<open>Rename Transformer (section 4.3)\<close>

text \<open>Modelled from the spec: "literal substring replace-all" of section 4.3
  (\<open>file_manager.py\<close> is missing), left to right over non-overlapping occurrences. An
  empty \<open>wanted\<close> occurs before every character and at the end.\<close>

fun replace_all :: "string \<Rightarrow> string \<Rightarrow> string \<Rightarrow> string" where
  "replace_all wanted replacement [] = (if wanted = [] then replacement else [])"
| "replace_all wanted replacement (c # cs) =
     (if wanted = [] then replacement @ c # replace_all wanted replacement cs
      else if prefix wanted (c # cs)
        then replacement @ replace_all wanted replacement (drop (length wanted - 1) cs)
      else c # replace_all wanted replacement cs)"

text \<open>
  Modelled from the spec: the name mapping of the Rename Transformer of section 4.3
  (\<open>file_manager.py\<close> is missing). "Computes, for each entry, new_name = apply(find,
  replace, use_regex) to entry.name only. If use_regex is false, performs literal
  substring replace-all; if true, performs regex substitution with replace-all
  semantics." Each row is \<open>(old_name, new_name)\<close>. The spec names no failure of the
  transformer; a pattern that does not compile is reported with the taxonomy's
  InvalidPatternError. The conflict flag of the preview depends on the directory's
  contents and is not part of this name mapping.
\<close>

definition rename_transformer ::
  "'r regex_lib \<Rightarrow> RenameSpec \<Rightarrow> FileEntry list \<Rightarrow> error + (string \<times> string) list" where
  "rename_transformer lib spec entries =
     (if regex_mode spec then
        (case re_compile lib (find_text spec) of
           None \<Rightarrow> Inl InvalidPatternError
         | Some r \<Rightarrow> Inr (map (\<lambda>e. (name e, re_sub lib r (replace_text spec) (name e))) entries))
      else
        Inr (map (\<lambda>e. (name e, replace_all (find_text spec) (replace_text spec) (name e)))
               entries))"

subsection \<open>A regular-expression engine for alternations of words\<close>

text \<open>
  Modelled from the spec: one regular-expression engine of the kind sections 4.2 and 4.3
  rely on, to put in place of the \<open>regex_lib\<close> parameter on concrete patterns (the
  engine \<open>file_manager.py\<close> uses is a library outside the repository). It accepts the
  patterns \<open>w1|w2|...|wn\<close> whose alternatives are non-empty words without
  metacharacters, and rejects every other pattern. On the patterns it accepts, it
  searches and substitutes as a backtracking engine does: at each position, left to
  right, the first alternative that matches there is taken, and the scan resumes after
  the match. The replacement, free of backslashes, is inserted as it is written.
\<close>

definition metachars :: string where
  "metachars = ''.^$*+?{}[]()|'' @ [CHR 0x5C]"

definition words_compile :: "string \<Rightarrow> string list option" where
  "words_compile p =
     (let alternatives = split_on (CHR ''|'') p
      in if list_all (\<lambda>w. w \<noteq> [] \<and> list_all (\<lambda>c. c \<notin> set metachars) w) alternatives
         then Some alternatives else None)"

definition words_search :: "string list \<Rightarrow> string \<Rightarrow> bool" where
  "words_search alternatives s = list_ex (\<lambda>w. contains s w) alternatives"

fun words_sub :: "string list \<Rightarrow> string \<Rightarrow> string \<Rightarrow> string" where
  "words_sub alternatives replacement [] = []"
| "words_sub alternatives replacement (c # cs) =
     (case find (\<lambda>w. w \<noteq> [] \<and> prefix w (c # cs)) alternatives of
        None \<Rightarrow> c # words_sub alternatives replacement cs
      | Some w \<Rightarrow> replacement @ words_sub alternatives replacement (drop (length w - 1) cs))"

definition words_re :: "string list regex_lib" where
  "words_re = \<lparr>re_compile = words_compile, re_search = words_search, re_sub = words_sub\<rparr>"

subsection \<open>Concrete entries\<close>

definition a_txt :: FileEntry where
  "a_txt = \<lparr>name = ''a.txt'', full_path = ''/data/a.txt'', size_bytes = 12,
            modified_time = 1700000000, is_directory = False\<rparr>"

definition readme_md :: FileEntry where
  "readme_md = \<lparr>name = ''README.md'', full_path = ''/data/README.md'', size_bytes = 1934,
                modified_time = 1700000100, is_directory = False\<rparr>"

section \<open>Properties of the launcher\<close>

lemma posixpath_sel:
  "os_abspath posixpath = posix_abspath"
  "os_dirname posixpath = posix_dirname"
  "os_join posixpath = posix_join"
  by (simp_all add: posixpath_def)

lemma installed_launch_path:
  "file_manager_path posixpath installed_launch = ''/opt/tools/fm/file_manager.py''"
  by (simp add: file_manager_path_def script_dir_def posixpath_sel installed_launch_def
      posix_abspath_def posix_normpath_def posix_isabs_def initial_slashes_def
      posix_dirname_def posix_join_def)

lemma abspath_of_absolute: "posix_isabs f \<Longrightarrow> posix_abspath d f = posix_normpath f"
  by (simp add: posix_abspath_def)

text \<open>
  Claim C9. For every invocation of the launcher, the path of the program it runs is the
  launcher script's own absolute directory (\<open>dirname\<close> of \<open>abspath\<close> of \<open>__file__\<close>)
  joined with \<open>file_manager.py\<close>. It does not depend on the caller's working directory:
  two invocations that reach the script at the same absolute location compute the same
  program path, and (for \<open>posixpath\<close>) when \<open>__file__\<close> is absolute, as it is for a
  script run by Python 3.9 or later, the working directory is not consulted at all.
\<close>

theorem program_path_from_script_directory:
  "file_manager_path P call =
     os_join P (os_dirname P (os_abspath P (cwd call) (script_file call))) ''file_manager.py''
   \<and> (os_abspath P (cwd call') (script_file call') = os_abspath P (cwd call) (script_file call)
        \<longrightarrow> file_manager_path P call' = file_manager_path P call)
   \<and> (posix_isabs (script_file call)
        \<longrightarrow> file_manager_path posixpath (call\<lparr>cwd := d\<rparr>) = file_manager_path posixpath call)"
  by (simp add: file_manager_path_def script_dir_def posixpath_sel abspath_of_absolute)

theorem program_path_from_script_directory_witness:
  "os_abspath posixpath (cwd relative_launch) (script_file relative_launch)
     = os_abspath posixpath (cwd installed_launch) (script_file installed_launch)
   \<and> file_manager_path posixpath relative_launch = ''/opt/tools/fm/file_manager.py''
   \<and> posix_isabs (script_file installed_launch)
   \<and> file_manager_path posixpath (installed_launch\<lparr>cwd := ''/tmp''\<rparr>)
       = ''/opt/tools/fm/file_manager.py''"
proof -
  have same: "os_abspath posixpath (cwd relative_launch) (script_file relative_launch)
      = os_abspath posixpath (cwd installed_launch) (script_file installed_launch)"
    by (simp add: posixpath_sel relative_launch_def installed_launch_def posix_abspath_def
        posix_normpath_def posix_isabs_def initial_slashes_def posix_join_def)
  have absolute: "posix_isabs (script_file installed_launch)"
    by (simp add: installed_launch_def posix_isabs_def)
  note C = program_path_from_script_directory
    [of posixpath installed_launch relative_launch "''/tmp''"]
  from C same have "file_manager_path posixpath relative_launch
      = file_manager_path posixpath installed_launch"
    by blast
  moreover from C absolute have "file_manager_path posixpath (installed_launch\<lparr>cwd := ''/tmp''\<rparr>)
      = file_manager_path posixpath installed_launch"
    by blast
  ultimately show ?thesis
    using same absolute by (simp add: installed_launch_path)
qed

text \<open>
  Claim C10. The command the launcher executes is the interpreter followed by the program
  path and nothing else. Two invocations that differ only in the launcher's own
  command-line arguments execute the identical command: no argument is forwarded.
\<close>

theorem launcher_forwards_no_arguments:
  "child_command P (call\<lparr>args := a1\<rparr>) = child_command P (call\<lparr>args := a2\<rparr>)
   \<and> child_command P (call\<lparr>args := a1\<rparr>) = [executable call, file_manager_path P call]
   \<and> length (child_command P call) = 2"
  by (simp add: child_command_def file_manager_path_def script_dir_def)

text \<open>
  Claim C1, as the script behaves. The launcher's exit code is 0 whenever the child
  process was started and returned, whatever the child's own return code; it is 1
  (non-zero) when \<open>subprocess.run\<close> raises because the child could not be started.
\<close>

theorem launcher_exit_code_ignores_returncode:
  "(subprocess_run (child_command P call) = Completed returncode
      \<longrightarrow> launcher_exit_code P subprocess_run call = 0)
   \<and> (subprocess_run (child_command P call) = Raised
      \<longrightarrow> launcher_exit_code P subprocess_run call = 1)"
  by (simp add: launcher_exit_code_def)

theorem launcher_exit_code_ignores_returncode_witness:
  "child_exits 0 (child_command posixpath installed_launch) = Completed 0
   \<and> launcher_exit_code posixpath (child_exits 0) installed_launch = 0
   \<and> child_cannot_start (child_command posixpath installed_launch) = Raised
   \<and> launcher_exit_code posixpath child_cannot_start installed_launch = 1"
proof -
  have normal: "child_exits 0 (child_command posixpath installed_launch) = Completed 0"
    by (simp add: child_exits_def)
  have broken: "child_cannot_start (child_command posixpath installed_launch) = Raised"
    by (simp add: child_cannot_start_def)
  from launcher_exit_code_ignores_returncode [of "child_exits 0" posixpath installed_launch 0]
    normal
  have "launcher_exit_code posixpath (child_exits 0) installed_launch = 0"
    by blast
  moreover
  from launcher_exit_code_ignores_returncode [of child_cannot_start posixpath installed_launch]
    broken
  have "launcher_exit_code posixpath child_cannot_start installed_launch = 1"
    by blast
  ultimately show ?thesis
    using normal broken by simp
qed

text \<open>
  Claim C1 as stated fails: a child that starts and then dies during its own startup (the
  interpreter ends with return code 1 on an unhandled \<open>ImportError\<close> for a missing GUI
  toolkit) leaves the launcher with exit code 0.
\<close>

theorem startup_failure_exit_code_counterexample:
  "child_exits 1 (child_command posixpath installed_launch) = Completed 1
   \<and> launcher_exit_code posixpath (child_exits 1) installed_launch = 0"
  by (simp add: launcher_exit_code_def child_exits_def)

section \<open>Properties of the filter and rename logic\<close>

lemma contains_iff: "contains h n \<longleftrightarrow> (\<exists>u v. h = u @ n @ v)"
proof (induction h)
  case Nil
  show ?case by auto
next
  case (Cons c cs)
  show ?case
    apply (simp add: Cons.IH prefix_def)
    apply (auto simp: Cons_eq_append_conv)
    done
qed

lemma contains_empty: "contains h []"
  by (induction h) auto

lemma prefix_drop_rebuild:
  assumes "w \<noteq> []" "prefix w (c # cs)"
  shows "w @ drop (length w - 1) cs = c # cs"
proof -
  from assms obtain v where v: "c # cs = w @ v"
    by (auto simp: prefix_def)
  with assms(1) obtain w' where w': "w = c # w'"
    by (cases w) auto
  with v have "cs = w' @ v" by simp
  then show ?thesis using w' by simp
qed

lemma replace_all_same: "r = w \<Longrightarrow> replace_all w r s = s"
proof (induction w r s rule: replace_all.induct)
  case (1 wanted replacement)
  then show ?case by simp
next
  case (2 wanted replacement c cs)
  show ?case
  proof (cases "wanted = []")
    case True
    with 2 show ?thesis by simp
  next
    case False
    show ?thesis
    proof (cases "prefix wanted (c # cs)")
      case True
      with False 2 have "replace_all wanted replacement (drop (length wanted - 1) cs)
          = drop (length wanted - 1) cs"
        by simp
      moreover from False True have "wanted @ drop (length wanted - 1) cs = c # cs"
        by (rule prefix_drop_rebuild)
      ultimately show ?thesis using False True 2(4)
        by simp
    next
      case no: False
      with False 2 show ?thesis by simp
    qed
  qed
qed

text \<open>
  Claim C2. For every list of entries and every FilterSpec with \<open>use_regex\<close> false, the
  Filter Engine succeeds and returns, in order, exactly the entries whose name contains
  the pattern as a substring: the name and the pattern themselves when \<open>case_sensitive\<close>
  is true, their case-folded forms otherwise. For the empty pattern it returns the full
  entry list.
\<close>

theorem plain_filter_is_substring_containment:
  "\<not> use_regex spec \<Longrightarrow>
     (case_sensitive spec \<longrightarrow>
        filter_engine lib entries spec =
          Inr (filter (\<lambda>e. \<exists>before after. name e = before @ pattern spec @ after) entries))
     \<and> (\<not> case_sensitive spec \<longrightarrow>
        filter_engine lib entries spec =
          Inr (filter (\<lambda>e. \<exists>before after.
                 map to_lower (name e) = before @ map to_lower (pattern spec) @ after) entries))
     \<and> (pattern spec = [] \<longrightarrow> filter_engine lib entries spec = Inr entries)"
proof (intro conjI impI)
  assume plain: "\<not> use_regex spec"
  {
    assume "case_sensitive spec"
    with plain show "filter_engine lib entries spec =
        Inr (filter (\<lambda>e. \<exists>before after. name e = before @ pattern spec @ after) entries)"
      by (simp add: filter_engine_def fold_case_def contains_iff)
  next
    assume "\<not> case_sensitive spec"
    with plain show "filter_engine lib entries spec =
        Inr (filter (\<lambda>e. \<exists>before after.
               map to_lower (name e) = before @ map to_lower (pattern spec) @ after) entries)"
      by (simp add: filter_engine_def fold_case_def contains_iff)
  next
    assume "pattern spec = []"
    with plain show "filter_engine lib entries spec = Inr entries"
      by (simp add: filter_engine_def fold_case_def contains_empty)
  }
qed

theorem plain_filter_is_substring_containment_witness:
  "\<not> use_regex \<lparr>pattern = ''readme'', use_regex = False, case_sensitive = True,
                  include_subdirs = False\<rparr>
   \<and> Inr (filter (\<lambda>e. \<exists>before after. name e = before @ ''readme'' @ after) [a_txt, readme_md])
       = (Inr [] :: error + FileEntry list)
   \<and> Inr (filter (\<lambda>e. \<exists>before after.
            map to_lower (name e) = before @ map to_lower ''readme'' @ after) [a_txt, readme_md])
       = (Inr [readme_md] :: error + FileEntry list)
   \<and> filter_engine words_re [a_txt, readme_md]
         \<lparr>pattern = [], use_regex = False, case_sensitive = False, include_subdirs = True\<rparr>
       = Inr [a_txt, readme_md]"
proof -
  let ?cs = "\<lparr>pattern = ''readme'', use_regex = False, case_sensitive = True,
              include_subdirs = False\<rparr>"
  let ?ci = "\<lparr>pattern = ''readme'', use_regex = False, case_sensitive = False,
              include_subdirs = False\<rparr>"
  let ?all = "\<lparr>pattern = [], use_regex = False, case_sensitive = False,
               include_subdirs = True\<rparr>"
  have run_cs: "filter_engine words_re [a_txt, readme_md] ?cs = Inr []"
    by (simp add: filter_engine_def fold_case_def a_txt_def readme_md_def)
  have run_ci: "filter_engine words_re [a_txt, readme_md] ?ci = Inr [readme_md]"
    by (simp add: filter_engine_def fold_case_def to_lower_def a_txt_def readme_md_def)
  have "Inr (filter (\<lambda>e. \<exists>before after. name e = before @ ''readme'' @ after)
          [a_txt, readme_md]) = (Inr [] :: error + FileEntry list)"
    using plain_filter_is_substring_containment [of ?cs words_re "[a_txt, readme_md]"] run_cs
    by simp
  moreover have "Inr (filter (\<lambda>e. \<exists>before after.
            map to_lower (name e) = before @ map to_lower ''readme'' @ after) [a_txt, readme_md])
       = (Inr [readme_md] :: error + FileEntry list)"
    using plain_filter_is_substring_containment [of ?ci words_re "[a_txt, readme_md]"] run_ci
    by simp
  moreover have "filter_engine words_re [a_txt, readme_md] ?all = Inr [a_txt, readme_md]"
  proof -
    have plain: "\<not> use_regex ?all" and empty: "pattern ?all = []"
      by simp_all
    from plain_filter_is_substring_containment [OF plain, of words_re "[a_txt, readme_md]"] empty
    show ?thesis by blast
  qed
  ultimately show ?thesis by simp
qed

text \<open>
  Claim C7, as the transformer behaves. For every RenameSpec with \<open>use_regex\<close> false and
  \<open>find\<close> equal to \<open>replace\<close>, the Rename Transformer is the identity on names: for
  every entry, the new name equals the old name.
\<close>

theorem literal_rename_same_text_is_identity:
  "\<not> regex_mode spec \<Longrightarrow> find_text spec = replace_text spec \<Longrightarrow>
     rename_transformer lib spec entries = Inr (map (\<lambda>e. (name e, name e)) entries)"
  by (simp add: rename_transformer_def replace_all_same)

theorem literal_rename_same_text_is_identity_witness:
  "\<not> regex_mode \<lparr>find_text = ''t'', replace_text = ''t'', regex_mode = False\<rparr>
   \<and> find_text \<lparr>find_text = ''t'', replace_text = ''t'', regex_mode = False\<rparr>
       = replace_text \<lparr>find_text = ''t'', replace_text = ''t'', regex_mode = False\<rparr>
   \<and> contains (name a_txt) ''t''
   \<and> rename_transformer words_re
         \<lparr>find_text = ''t'', replace_text = ''t'', regex_mode = False\<rparr> [a_txt, readme_md]
       = Inr [(''a.txt'', ''a.txt''), (''README.md'', ''README.md'')]
   \<and> rename_transformer words_re
         \<lparr>find_text = ''t'', replace_text = ''zz'', regex_mode = False\<rparr> [a_txt, readme_md]
       = Inr [(''a.txt'', ''a.zzxzz''), (''README.md'', ''README.md'')]
   \<and> rename_transformer words_re
         \<lparr>find_text = ''t'', replace_text = [], regex_mode = False\<rparr> [a_txt, readme_md]
       = Inr [(''a.txt'', ''a.x''), (''README.md'', ''README.md'')]"
proof -
  let ?same = "\<lparr>find_text = ''t'', replace_text = ''t'', regex_mode = False\<rparr>"
  have literal: "\<not> regex_mode ?same"
    by simp
  have same_text: "find_text ?same = replace_text ?same"
    by simp
  have occurs: "contains (name a_txt) ''t''"
    by (simp add: a_txt_def)
  from literal_rename_same_text_is_identity [OF literal same_text, of words_re "[a_txt, readme_md]"]
  have unchanged: "rename_transformer words_re ?same [a_txt, readme_md]
      = Inr [(''a.txt'', ''a.txt''), (''README.md'', ''README.md'')]"
    by (simp add: a_txt_def readme_md_def)
  have other_text: "rename_transformer words_re
      \<lparr>find_text = ''t'', replace_text = ''zz'', regex_mode = False\<rparr> [a_txt, readme_md]
      = Inr [(''a.txt'', ''a.zzxzz''), (''README.md'', ''README.md'')]"
    by (simp add: rename_transformer_def a_txt_def readme_md_def)
  have deleted: "rename_transformer words_re
      \<lparr>find_text = ''t'', replace_text = [], regex_mode = False\<rparr> [a_txt, readme_md]
      = Inr [(''a.txt'', ''a.x''), (''README.md'', ''README.md'')]"
    by (simp add: rename_transformer_def a_txt_def readme_md_def)
  from literal same_text occurs unchanged other_text deleted show ?thesis
    by (intro conjI)
qed

text \<open>
  Claim C7 as stated fails in regex mode: with \<open>find\<close> and \<open>replace\<close> both \<open>a|b\<close>, the
  pattern matches the \<open>a\<close> of \<open>a.txt\<close> and the replacement text \<open>a|b\<close> is put in its
  place, so the new name \<open>a|b.txt\<close> differs from the old one.
\<close>

theorem regex_rename_same_text_counterexample:
  "rename_transformer words_re
      \<lparr>find_text = ''a|b'', replace_text = ''a|b'', regex_mode = True\<rparr> [a_txt]
     = Inr [(''a.txt'', ''a|b.txt'')]
   \<and> ''a|b.txt'' \<noteq> ''a.txt''"
  by (simp add: rename_transformer_def words_re_def words_compile_def metachars_def a_txt_def)

end
